theory Spec2Isabelle
  imports Complex_Main "HOL-Library.Sublist"
begin

section \<open>Strings as the program uses them\<close>

text \<open>
  A JavaScript string is modelled as a \<open>string\<close>: a list of code units, whose
  \<open>length\<close> is the program's \<open>.length\<close>. The one character of the sources outside
  ASCII, the dash of the instruction header, is written as its three UTF-8 bytes; no
  property below depends on its length.
\<close>

definition str_includes :: "string \<Rightarrow> string \<Rightarrow> bool" where
  \<comment> \<open>\<open>s.includes(t)\<close>\<close>
  "str_includes s t = sublist t s"

definition digit :: "nat \<Rightarrow> char" where
  "digit d = ''0123456789'' ! d"

fun show_nat :: "nat \<Rightarrow> string" where
  \<comment> \<open>the decimal text of a non-negative integer, as a template literal renders it\<close>
  "show_nat n = (if n < 10 then [digit n] else show_nat (n div 10) @ [digit (n mod 10)])"

declare show_nat.simps [simp del]

definition show_int :: "int \<Rightarrow> string" where
  "show_int i = (if i < 0 then ''-'' @ show_nat (nat (- i)) else show_nat (nat i))"

definition is_space :: "char \<Rightarrow> bool" where
  \<comment> \<open>the white space and line terminators that \<open>trim\<close> strips (tab, LF, VT, FF, CR, space)\<close>
  "is_space c = (c \<in> {CHR 0x09, CHR 0x0A, CHR 0x0B, CHR 0x0C, CHR 0x0D, CHR 0x20})"

definition trim :: "string \<Rightarrow> string" where
  "trim s = rev (dropWhile is_space (rev (dropWhile is_space s)))"

fun split_on :: "char \<Rightarrow> string \<Rightarrow> string list" where
  \<comment> \<open>\<open>s.split(c)\<close>: never empty, \<open>''''.split(c)\<close> is \<open>['''']\<close>\<close>
  "split_on c [] = [[]]"
| "split_on c (x # xs) =
     (if x = c then [] # split_on c xs
      else (case split_on c xs of [] \<Rightarrow> [[x]] | y # ys \<Rightarrow> (x # y) # ys))"

fun join_sep :: "string \<Rightarrow> string list \<Rightarrow> string" where
  \<comment> \<open>\<open>parts.join(sep)\<close>\<close>
  "join_sep sep [] = []"
| "join_sep sep [x] = x"
| "join_sep sep (x # y # ys) = x @ sep @ join_sep sep (y # ys)"

definition substring :: "nat \<Rightarrow> nat \<Rightarrow> string \<Rightarrow> string" where
  \<comment> \<open>\<open>s.substring(a, b)\<close> for \<open>a \<le> b\<close>\<close>
  "substring a b s = take (b - a) (drop a s)"


section \<open>Paths (the POSIX functions of \<open>node:path\<close>)\<close>

fun normalizeSegs :: "bool \<Rightarrow> string list \<Rightarrow> string list \<Rightarrow> string list" where
  \<comment> \<open>the segment loop of \<open>normalizeString\<close>: empty and \<open>.\<close> segments are dropped,
      \<open>..\<close> removes the segment before it (or is kept, above the root of a relative path)\<close>
  "normalizeSegs allowAboveRoot res [] = res"
| "normalizeSegs allowAboveRoot res (s # ss) =
     (if s = [] \<or> s = ''.'' then normalizeSegs allowAboveRoot res ss
      else if s = ''..'' then
        (if res \<noteq> [] \<and> last res \<noteq> ''..'' then normalizeSegs allowAboveRoot (butlast res) ss
         else if allowAboveRoot then normalizeSegs allowAboveRoot (res @ [''..'']) ss
         else normalizeSegs allowAboveRoot res ss)
      else normalizeSegs allowAboveRoot (res @ [s]) ss)"

definition normalizeString :: "string \<Rightarrow> bool \<Rightarrow> string" where
  "normalizeString path allowAboveRoot =
     join_sep ''/'' (normalizeSegs allowAboveRoot [] (split_on CHR ''/'' path))"

definition isAbsolute :: "string \<Rightarrow> bool" where
  "isAbsolute path = (path \<noteq> [] \<and> hd path = CHR ''/'')"

definition normalize :: "string \<Rightarrow> string" where
  "normalize path =
     (if path = [] then ''.''
      else
        let trailingSeparator = (last path = CHR ''/'');
            p = normalizeString path (\<not> isAbsolute path)
        in if p = [] then (if isAbsolute path then ''/'' else if trailingSeparator then ''./'' else ''.'')
           else (if isAbsolute path then ''/'' else []) @ p @ (if trailingSeparator then ''/'' else []))"

definition path_join :: "string list \<Rightarrow> string" where
  \<comment> \<open>\<open>join(...args)\<close>\<close>
  "path_join args =
     (let joined = join_sep ''/'' (filter (\<lambda>a. a \<noteq> []) args)
      in if joined = [] then ''.'' else normalize joined)"

definition resolve :: "string \<Rightarrow> string \<Rightarrow> string" where
  \<comment> \<open>\<open>resolve(p)\<close> in a process whose working directory is \<open>cwd\<close>\<close>
  "resolve cwd p =
     (let (resolvedPath, resolvedAbsolute) =
            (if isAbsolute p then (p @ ''/'', True)
             else let q = (if p = [] then [] else p @ ''/'')
                  in if cwd = [] then (q, False) else (cwd @ ''/'' @ q, isAbsolute cwd));
          r = normalizeString resolvedPath (\<not> resolvedAbsolute)
      in if resolvedAbsolute then ''/'' @ r else if r \<noteq> [] then r else ''.'')"


section \<open>util.ts\<close>

datatype ToolMode = Default | Query

definition RESPONSE_FILENAME :: string where
  "RESPONSE_FILENAME = ''.paf-response.md''"

definition dash :: string where
  "dash = [CHR 0xE2, CHR 0x80, CHR 0x94]"

definition wrapPrompt :: "string \<Rightarrow> ToolMode \<Rightarrow> string" where
  "wrapPrompt userPrompt mode =
     (if mode = Query then
        ''## CRITICAL INSTRUCTIONS '' @ dash @ '' READ BEFORE DOING ANYTHING\<newline>'' @
        ''\<newline>'' @
        ''You are operating as a subagent inside an isolated git worktree for reference only. Any file changes you make will be discarded. Focus on analysis and your written response.\<newline>'' @
        ''\<newline>'' @
        ''1. **Do NOT modify files.** Any changes will be thrown away. The repository is available for you to read, not to edit.\<newline>'' @
        ''2. **When you are finished**, write your complete final response to the file `'' @ RESPONSE_FILENAME @ ''` in the repository root. This file is your ONLY communication channel back to the calling agent. Include:\<newline>'' @
        ''   - Your analysis or answer\<newline>'' @
        ''   - Any important findings or decisions\<newline>'' @
        ''   - Any warnings or caveats\<newline>'' @
        ''3. You MUST create the `'' @ RESPONSE_FILENAME @ ''` file. It is how you report back.\<newline>'' @
        ''\<newline>'' @
        ''## YOUR TASK\<newline>'' @
        ''\<newline>'' @
        userPrompt
      else
        ''## CRITICAL INSTRUCTIONS '' @ dash @ '' READ BEFORE DOING ANYTHING\<newline>'' @
        ''\<newline>'' @
        ''You are operating as a subagent inside an isolated git worktree. Follow these rules:\<newline>'' @
        ''\<newline>'' @
        ''1. **NEVER push to any remote.** Do not run `git push` under any circumstances.\<newline>'' @
        ''2. **When you are finished**, write your complete final response to the file `'' @ RESPONSE_FILENAME @ ''` in the repository root. This file is your ONLY communication channel back to the calling agent. Include:\<newline>'' @
        ''   - A summary of what you did\<newline>'' @
        ''   - Any important findings or decisions\<newline>'' @
        ''   - Any warnings or caveats\<newline>'' @
        ''3. You MUST create the `'' @ RESPONSE_FILENAME @ ''` file even if you made no code changes. It is how you report back.\<newline>'' @
        ''\<newline>'' @
        ''## YOUR TASK\<newline>'' @
        ''\<newline>'' @
        userPrompt)"

text \<open>
  \<open>generateWorktreePath\<close> reads the clock and the random generator. Both readings are
  arguments here: \<open>timestamp\<close> is the value of \<open>Date.now()\<close> (milliseconds, a
  non-negative integer) and \<open>random36\<close> is the text of
  \<open>Math.random().toString(36)\<close>, such as \<open>0.4fzyo82mvyr\<close>.
\<close>

definition generateWorktreePath :: "string \<Rightarrow> nat \<Rightarrow> string \<Rightarrow> string" where
  "generateWorktreePath baseDir timestamp random36 =
     (let suffix = substring 2 8 random36
      in path_join [baseDir, ''.worktrees'', ''paf-'' @ show_nat timestamp @ ''-'' @ suffix])"

definition PROMPT_SIZE_WARNING_THRESHOLD :: nat where
  "PROMPT_SIZE_WARNING_THRESHOLD = 10 * 1024"

definition REPO_ISSUES_URL :: string where
  "REPO_ISSUES_URL = ''https://github.com/bexelbie/phone-a-friend/issues''"

definition math_round_div :: "nat \<Rightarrow> nat \<Rightarrow> nat" where
  \<comment> \<open>\<open>Math.round(n / d)\<close> for non-negative integers: the nearest integer, a tie going up\<close>
  "math_round_div n d = (2 * n + d) div (2 * d)"

definition promptSizeWarning :: "string \<Rightarrow> string option" where
  "promptSizeWarning prompt =
     (if length prompt < PROMPT_SIZE_WARNING_THRESHOLD then None
      else
        let sizeKB = math_round_div (length prompt) 1024
        in Some (''**Large prompt warning:** The prompt sent to the subagent was ~'' @ show_nat sizeKB @ ''KB. '' @
                 ''If this included pasted file contents to work around the uncommitted changes '' @
                 ''limitation, be aware this consumes significant context in both directions. '' @
                 ''If this is causing problems, consider requesting built-in uncommitted changes '' @
                 ''support: '' @ REPO_ISSUES_URL))"



section \<open>The environment: file system, git, and the agent process\<close>

text \<open>
  \<open>git.ts\<close> reaches the world only through child processes (\<open>git\<close>, \<open>copilot\<close>) and
  \<open>node:fs\<close>. The world is an explicit state. Every external call can fail for a reason
  the state does not explain (a lock, a full disk, a permission, an output larger than
  the buffer \<open>execFile\<close> allows, which is 10 MiB for the \<open>git diff\<close> of
  \<open>captureChanges\<close>): \<open>faults\<close> says which calls do. The git commands are modelled
  as far as the code observes them: which directory lies in which work tree, the commit
  each work tree's \<open>HEAD\<close> names, the staged tree of each work tree, the tree of each
  commit, the linked work trees, the branches, and the paths that \<open>git add\<close> passes
  over in a work tree unless they are tracked already (\<open>ignored\<close>: the ignore rules in
  force there, and nested repositories). Files are regular files, given by their bytes.
\<close>

datatype op =
    GitRevParseGitDir | GitRevParseShowToplevel | GitRevParseHead
  | GitWorktreeAdd | GitWorktreeRemove | GitWorktreePrune | GitBranchDelete
  | GitAddAll | GitDiffStaged
  | Mkdir | Rm | ReadFile | Unlink
  | Spawn

datatype error = Failed op

type_synonym tree = "(string \<times> string) list"

record world =
  cwd :: string
  toplevel :: "string \<Rightarrow> string option"
  head_of :: "string \<Rightarrow> string option"
  staged :: "string \<Rightarrow> tree"
  objects :: "string \<Rightarrow> tree option"
  ignored :: "string \<Rightarrow> string \<Rightarrow> bool"
  linked :: "string set"
  branches :: "(string \<times> string) set"
  dirs :: "string set"
  files :: tree
  faults :: "op \<Rightarrow> bool"

definition path_under :: "string \<Rightarrow> string \<Rightarrow> bool" where
  \<comment> \<open>\<open>p\<close> is \<open>d\<close> or lies below it\<close>
  "path_under d p = (p = d \<or> prefix (d @ ''/'') p)"

definition existsSync :: "world \<Rightarrow> string \<Rightarrow> bool" where
  "existsSync w p = (p \<in> dirs w \<or> map_of (files w) p \<noteq> None)"

definition work_tree :: "world \<Rightarrow> string \<Rightarrow> tree" where
  \<comment> \<open>the files below a work tree's top level, by their relative paths\<close>
  "work_tree w t =
     map (\<lambda>(p, c). (drop (length t + 1) p, c)) (filter (\<lambda>(p, c). prefix (t @ ''/'') p) (files w))"

definition remove_under :: "string \<Rightarrow> world \<Rightarrow> world" where
  "remove_under p w =
     w\<lparr>dirs := {d \<in> dirs w. \<not> path_under p d},
       files := filter (\<lambda>(q, c). \<not> path_under p q) (files w),
       toplevel := (\<lambda>d. if path_under p d then None else toplevel w d)\<rparr>"

subsection \<open>File system calls\<close>

fun dir_prefixes :: "string \<Rightarrow> string \<Rightarrow> string list" where
  \<comment> \<open>the directories above a path: what stands before each of its separators\<close>
  "dir_prefixes acc [] = []"
| "dir_prefixes acc (x # xs) =
     (if x = CHR ''/'' \<and> acc \<noteq> [] then [acc] else []) @ dir_prefixes (acc @ [x]) xs"

definition mkdir_recursive :: "world \<Rightarrow> string \<Rightarrow> error + world" where
  \<comment> \<open>\<open>mkdir(p, {recursive: true})\<close>: the directory and those above it\<close>
  "mkdir_recursive w p =
     (if faults w Mkdir then Inl (Failed Mkdir)
      else Inr (w\<lparr>dirs := dirs w \<union> set (p # dir_prefixes [] p)\<rparr>))"

definition rm_recursive_force :: "world \<Rightarrow> string \<Rightarrow> error + world" where
  \<comment> \<open>\<open>rm(p, {recursive: true, force: true})\<close>: a missing path is no error\<close>
  "rm_recursive_force w p =
     (if faults w Rm then Inl (Failed Rm) else Inr (remove_under p w))"

definition readFile :: "world \<Rightarrow> string \<Rightarrow> error + string" where
  "readFile w p =
     (if faults w ReadFile then Inl (Failed ReadFile)
      else case map_of (files w) p of None \<Rightarrow> Inl (Failed ReadFile) | Some c \<Rightarrow> Inr c)"

definition unlink :: "world \<Rightarrow> string \<Rightarrow> error + world" where
  "unlink w p =
     (if faults w Unlink \<or> map_of (files w) p = None then Inl (Failed Unlink)
      else Inr (w\<lparr>files := filter (\<lambda>(q, c). q \<noteq> p) (files w)\<rparr>))"

subsection \<open>The output of \<open>git diff\<close>\<close>

text \<open>
  What \<open>git diff\<close> prints for two trees under git's default configuration, file by
  file, for paths that no attribute marks. A path is printed as it is, after \<open>a/\<close> or
  \<open>b/\<close>, unless one of its bytes is a control character, a double quote, a backslash
  or lies outside ASCII: then the label is put in double quotes with those bytes escaped,
  a byte without a letter escape as a backslash and three octal digits. A content is
  binary when one of its first 8000 bytes is NUL: for a binary file git prints that the
  files differ and none of their bytes.
  For a text file it prints the \<open>---\<close> and \<open>+++\<close> lines (a label that holds a space
  is followed by a tab), a hunk header, the lines of the old content prefixed \<open>-\<close> and
  the lines of the new content prefixed \<open>+\<close>, and a marker after a last line that no
  newline ends.

  Left out: the \<open>index\<close> line (it holds object names, which are hashes of the contents),
  file modes other than \<open>100644\<close>, and the pairing of a deleted file with a new one of
  similar content (git then prints a rename and only the lines that differ). A file that
  both trees have is shown as one hunk that replaces all its lines, where git prints the
  lines that both contents share as context. The properties below read the diff of new
  files only, in runs in which no file of the old tree is gone.
\<close>

definition file_lines :: "string \<Rightarrow> string list" where
  "file_lines c =
     (if c = [] then []
      else if last c = CHR 0x0A then butlast (split_on (CHR 0x0A) c)
      else split_on (CHR 0x0A) c)"

definition is_binary :: "string \<Rightarrow> bool" where
  \<comment> \<open>a NUL among the first 8000 bytes\<close>
  "is_binary c = (CHR 0x00 \<in> set (take 8000 c))"

definition octal3 :: "nat \<Rightarrow> string" where
  "octal3 n = [digit (n div 64), digit (n div 8 mod 8), digit (n mod 8)]"

definition c_escape :: "char \<Rightarrow> string" where
  \<comment> \<open>a byte as it stands inside a quoted path\<close>
  "c_escape c =
     (let n = (of_char c :: nat)
      in if c = CHR 0x22 \<or> c = CHR 0x5C then [CHR 0x5C, c]
         else if 7 \<le> n \<and> n \<le> 13 then [CHR 0x5C, ''abtnvfr'' ! (n - 7)]
         else if n < 32 \<or> 127 \<le> n then CHR 0x5C # octal3 n
         else [c])"

definition needs_quote :: "string \<Rightarrow> bool" where
  "needs_quote p = list_ex (\<lambda>c. c_escape c \<noteq> [c]) p"

definition quote_path :: "string \<Rightarrow> string \<Rightarrow> string" where
  \<comment> \<open>the label of a path: \<open>pre\<close> is \<open>a/\<close> or \<open>b/\<close>\<close>
  "quote_path pre p =
     (if needs_quote p then [CHR 0x22] @ pre @ concat (map c_escape p) @ [CHR 0x22]
      else pre @ p)"

definition label_tab :: "string \<Rightarrow> string" where
  "label_tab l = (if CHR 0x20 \<in> set l then [CHR 0x09] else [])"

definition hunk_range :: "nat \<Rightarrow> string" where
  \<comment> \<open>the range of a hunk that holds all \<open>n\<close> lines of a file\<close>
  "hunk_range n = (if n = 0 then ''0,0'' else if n = 1 then ''1'' else ''1,'' @ show_nat n)"

definition signed_lines :: "char \<Rightarrow> string \<Rightarrow> string" where
  "signed_lines sign c =
     concat (map (\<lambda>l. sign # l @ ''\<newline>'') (file_lines c)) @
     (if c \<noteq> [] \<and> last c \<noteq> CHR 0x0A then [CHR 0x5C] @ '' No newline at end of file\<newline>'' else [])"

definition diff_body :: "string \<Rightarrow> string \<Rightarrow> string \<Rightarrow> string \<Rightarrow> string" where
  \<comment> \<open>what follows the header lines: \<open>la\<close> and \<open>lb\<close> are the labels of the two sides,
      \<open>c\<close> and \<open>c'\<close> their contents (empty for the side that has no file)\<close>
  "diff_body la lb c c' =
     (if is_binary c \<or> is_binary c' then ''Binary files '' @ la @ '' and '' @ lb @ '' differ\<newline>''
      else if c = [] \<and> c' = [] then []
      else ''--- '' @ la @ label_tab la @ ''\<newline>+++ '' @ lb @ label_tab lb @ ''\<newline>'' @
           ''@@ -'' @ hunk_range (length (file_lines c)) @
           '' +'' @ hunk_range (length (file_lines c')) @ '' @@\<newline>'' @
           signed_lines (CHR ''-'') c @ signed_lines (CHR ''+'') c')"

definition file_diff :: "string \<Rightarrow> string option \<Rightarrow> string option \<Rightarrow> string" where
  "file_diff p old new =
     ''diff --git '' @ quote_path ''a/'' p @ '' '' @ quote_path ''b/'' p @ ''\<newline>'' @
     (case (old, new) of
        (None, None) \<Rightarrow> []
      | (None, Some c) \<Rightarrow>
          ''new file mode 100644\<newline>'' @ diff_body ''/dev/null'' (quote_path ''b/'' p) [] c
      | (Some c, None) \<Rightarrow>
          ''deleted file mode 100644\<newline>'' @ diff_body (quote_path ''a/'' p) ''/dev/null'' c []
      | (Some c, Some c') \<Rightarrow> diff_body (quote_path ''a/'' p) (quote_path ''b/'' p) c c')"

definition changed_paths :: "tree \<Rightarrow> tree \<Rightarrow> string list" where
  "changed_paths old new =
     filter (\<lambda>p. map_of old p \<noteq> map_of new p) (remdups (map fst old @ map fst new))"

definition unified_diff :: "tree \<Rightarrow> tree \<Rightarrow> string" where
  "unified_diff old new =
     concat (map (\<lambda>p. file_diff p (map_of old p) (map_of new p)) (changed_paths old new))"

subsection \<open>git commands\<close>

text \<open>Each command runs with a working directory \<open>dir\<close> and fails outside a work tree.\<close>

definition git_rev_parse_git_dir :: "world \<Rightarrow> string \<Rightarrow> error + unit" where
  "git_rev_parse_git_dir w dir =
     (if faults w GitRevParseGitDir \<or> toplevel w dir = None then Inl (Failed GitRevParseGitDir)
      else Inr ())"

definition git_rev_parse_show_toplevel :: "world \<Rightarrow> string \<Rightarrow> error + string" where
  "git_rev_parse_show_toplevel w dir =
     (if faults w GitRevParseShowToplevel then Inl (Failed GitRevParseShowToplevel)
      else case toplevel w dir of
             None \<Rightarrow> Inl (Failed GitRevParseShowToplevel)
           | Some t \<Rightarrow> Inr (t @ ''\<newline>''))"

definition git_rev_parse_head :: "world \<Rightarrow> string \<Rightarrow> error + string" where
  "git_rev_parse_head w dir =
     (if faults w GitRevParseHead then Inl (Failed GitRevParseHead)
      else case toplevel w dir of
             None \<Rightarrow> Inl (Failed GitRevParseHead)
           | Some t \<Rightarrow>
               (case head_of w t of
                  None \<Rightarrow> Inl (Failed GitRevParseHead)
                | Some sha \<Rightarrow> Inr (sha @ ''\<newline>'')))"

definition git_worktree_add :: "world \<Rightarrow> string \<Rightarrow> string \<Rightarrow> string \<Rightarrow> error + world" where
  \<comment> \<open>\<open>git worktree add -B branch path HEAD\<close>: a new directory holding the files of
      \<open>HEAD\<close>, registered as a linked work tree on the branch\<close>
  "git_worktree_add w dir branch path =
     (if faults w GitWorktreeAdd \<or> existsSync w path then Inl (Failed GitWorktreeAdd)
      else case toplevel w dir of
             None \<Rightarrow> Inl (Failed GitWorktreeAdd)
           | Some t \<Rightarrow>
               (case head_of w t of
                  None \<Rightarrow> Inl (Failed GitWorktreeAdd)
                | Some sha \<Rightarrow>
                    (case objects w sha of
                       None \<Rightarrow> Inl (Failed GitWorktreeAdd)
                     | Some tr \<Rightarrow>
                         Inr (w\<lparr>dirs := insert path (dirs w),
                                files := map (\<lambda>(rel, c). (path @ ''/'' @ rel, c)) tr @ files w,
                                toplevel := (toplevel w)(path \<mapsto> path),
                                head_of := (head_of w)(path \<mapsto> sha),
                                staged := (staged w)(path := tr),
                                linked := insert path (linked w),
                                branches := insert (t, branch) (branches w)\<rparr>))))"

definition git_worktree_remove :: "world \<Rightarrow> string \<Rightarrow> string \<Rightarrow> error + world" where
  \<comment> \<open>\<open>git worktree remove path --force\<close>\<close>
  "git_worktree_remove w dir path =
     (if faults w GitWorktreeRemove \<or> toplevel w dir = None
         \<or> path \<notin> linked w \<or> toplevel w path \<noteq> Some path
      then Inl (Failed GitWorktreeRemove)
      else Inr ((remove_under path w)\<lparr>linked := linked w - {path},
                                        head_of := (head_of w)(path := None)\<rparr>))"

definition git_worktree_prune :: "world \<Rightarrow> string \<Rightarrow> error + world" where
  \<comment> \<open>forgets the linked work trees whose directory is gone\<close>
  "git_worktree_prune w dir =
     (if faults w GitWorktreePrune \<or> toplevel w dir = None then Inl (Failed GitWorktreePrune)
      else Inr (w\<lparr>linked := {p \<in> linked w. p \<in> dirs w},
                  head_of := (\<lambda>p. if p \<in> linked w \<and> p \<notin> dirs w then None else head_of w p)\<rparr>))"

definition git_branch_delete :: "world \<Rightarrow> string \<Rightarrow> string \<Rightarrow> error + world" where
  \<comment> \<open>\<open>git branch -D name\<close>: fails when there is no such branch\<close>
  "git_branch_delete w dir name =
     (if faults w GitBranchDelete then Inl (Failed GitBranchDelete)
      else case toplevel w dir of
             None \<Rightarrow> Inl (Failed GitBranchDelete)
           | Some t \<Rightarrow>
               if (t, name) \<in> branches w then Inr (w\<lparr>branches := branches w - {(t, name)}\<rparr>)
               else Inl (Failed GitBranchDelete))"

definition stage_all :: "world \<Rightarrow> string \<Rightarrow> tree" where
  \<comment> \<open>the files of the work tree, without those that are untracked and ignored\<close>
  "stage_all w t =
     filter (\<lambda>(p, c). \<not> (map_of (staged w t) p = None \<and> ignored w t p)) (work_tree w t)"

definition git_add_all :: "world \<Rightarrow> string \<Rightarrow> error + world" where
  \<comment> \<open>\<open>git add -A\<close>: the staged tree becomes the files of the work tree, except that
      an ignored file is staged only when it is tracked already\<close>
  "git_add_all w dir =
     (if faults w GitAddAll then Inl (Failed GitAddAll)
      else case toplevel w dir of
             None \<Rightarrow> Inl (Failed GitAddAll)
           | Some t \<Rightarrow> Inr (w\<lparr>staged := (staged w)(t := stage_all w t)\<rparr>))"

definition git_diff_staged :: "world \<Rightarrow> string \<Rightarrow> string \<Rightarrow> error + string" where
  \<comment> \<open>\<open>git diff --staged commit\<close>: the tree of the commit against the staged tree;
      fails when the commit is unknown\<close>
  "git_diff_staged w dir commit =
     (if faults w GitDiffStaged then Inl (Failed GitDiffStaged)
      else case toplevel w dir of
             None \<Rightarrow> Inl (Failed GitDiffStaged)
           | Some t \<Rightarrow>
               (case objects w commit of
                  None \<Rightarrow> Inl (Failed GitDiffStaged)
                | Some tr \<Rightarrow> Inr (unified_diff tr (staged w t))))"

subsection \<open>The agent process\<close>

text \<open>
  The external agent is any function of the world: given its working directory and its
  arguments it changes the world as it likes and ends either by closing, with an exit
  code (none when a signal killed it) and what it wrote to stderr, or with an
  \<open>error\<close> event, which carries the error's code and message. \<open>SpawnThrows\<close> stands
  for a call of \<open>spawn\<close> that throws instead of returning a child process, as it does
  when the system refuses the arguments (an argument list that is too long): then no
  process has run.
\<close>

datatype proc_end = Closed "int option" string | SpawnError string string | SpawnThrows

type_synonym agent = "string \<Rightarrow> string list \<Rightarrow> world \<Rightarrow> proc_end \<times> world"


section \<open>git.ts\<close>

text \<open>
  An \<open>async\<close> function is a function of the world that returns its value, or the
  error it rejects with, and the world it leaves. The three inspecting functions leave
  the world as it is.
\<close>

definition best_effort :: "error + world \<Rightarrow> world \<Rightarrow> world" where
  \<comment> \<open>\<open>try { await command } catch { }\<close>: a failure is dropped and the world stays\<close>
  "best_effort r w = (case r of Inl _ \<Rightarrow> w | Inr w' \<Rightarrow> w')"

definition isGitRepo :: "world \<Rightarrow> string \<Rightarrow> bool" where
  "isGitRepo w dir =
     (case git_rev_parse_git_dir w dir of Inr _ \<Rightarrow> True | Inl _ \<Rightarrow> False)"

definition getGitRoot :: "world \<Rightarrow> string \<Rightarrow> error + string" where
  "getGitRoot w dir =
     (case git_rev_parse_show_toplevel w dir of
        Inl e \<Rightarrow> Inl e
      | Inr stdout \<Rightarrow> Inr (trim stdout))"

definition branchName :: "string \<Rightarrow> string" where
  \<comment> \<open>\<open>`paf/${worktreePath.split("/").pop()}`\<close>\<close>
  "branchName worktreePath = ''paf/'' @ last (split_on (CHR ''/'') worktreePath)"

definition createWorktree :: "string \<Rightarrow> string \<Rightarrow> world \<Rightarrow> (error + unit) \<times> world" where
  "createWorktree repoDir worktreePath w =
     (let worktreesDir = path_join [worktreePath, ''..'']
      in case (if \<not> existsSync w worktreesDir then mkdir_recursive w worktreesDir else Inr w) of
           Inl e \<Rightarrow> (Inl e, w)
         | Inr w1 \<Rightarrow>
             (case git_worktree_add w1 repoDir (branchName worktreePath) worktreePath of
                Inl e \<Rightarrow> (Inl e, w1)
              | Inr w2 \<Rightarrow> (Inr (), w2)))"

definition removeWorktree :: "string \<Rightarrow> string \<Rightarrow> world \<Rightarrow> (error + unit) \<times> world" where
  "removeWorktree repoDir worktreePath w =
     (case (case git_worktree_remove w repoDir worktreePath of
              Inr w1 \<Rightarrow> Inr w1
            | Inl _ \<Rightarrow>
                \<comment> \<open>the manual clean-up of the catch block; \<open>rm\<close> is awaited outside any \<open>try\<close>\<close>
                (case (if existsSync w worktreePath then rm_recursive_force w worktreePath else Inr w) of
                   Inl e \<Rightarrow> Inl e
                 | Inr w1 \<Rightarrow> Inr (best_effort (git_worktree_prune w1 repoDir) w1))) of
        Inl e \<Rightarrow> (Inl e, w)
      | Inr w2 \<Rightarrow> (Inr (), best_effort (git_branch_delete w2 repoDir (branchName worktreePath)) w2))"

definition copilot_args :: "string \<Rightarrow> string \<Rightarrow> string list" where
  "copilot_args prompt model =
     [''-p'', prompt, ''--model'', model, ''--allow-all'', ''--deny-tool'',
      ''shell(git push*)'', ''--no-alt-screen'', ''--no-color'']"

definition cli_not_found :: string where
  "cli_not_found =
     ''Copilot CLI not found. Install it (https://docs.github.com/en/copilot/github-copilot-in-the-cli) and ensure '' @
     [CHR 0x27] @ ''copilot'' @ [CHR 0x27] @ '' is on your PATH.''"

definition runCopilotCli ::
  "agent \<Rightarrow> string \<Rightarrow> string \<Rightarrow> string \<Rightarrow> world \<Rightarrow> (error + int \<times> string) \<times> world" where
  \<comment> \<open>Both endings of the process resolve the promise. It rejects only when \<open>spawn\<close>
      throws inside the executor: \<open>spawn\<close> refuses a working directory or an argument that
      holds a NUL character, and passes on what the system refuses.\<close>
  "runCopilotCli agent worktreePath prompt model w =
     (if CHR 0x00 \<in> set (concat (worktreePath # copilot_args prompt model)) then (Inl (Failed Spawn), w)
      else case agent worktreePath (copilot_args prompt model) w of
             (Closed code stderr, w') \<Rightarrow> (Inr (case code of None \<Rightarrow> 1 | Some c \<Rightarrow> c, stderr), w')
           | (SpawnError code message, w') \<Rightarrow>
               (Inr (1, if code = ''ENOENT'' then cli_not_found else message), w')
           | (SpawnThrows, w') \<Rightarrow> (Inl (Failed Spawn), w))"

definition getHeadSha :: "world \<Rightarrow> string \<Rightarrow> error + string" where
  "getHeadSha w dir =
     (case git_rev_parse_head w dir of
        Inl e \<Rightarrow> Inl e
      | Inr stdout \<Rightarrow> Inr (trim stdout))"

definition captureChanges :: "string \<Rightarrow> string \<Rightarrow> world \<Rightarrow> string \<times> world" where
  "captureChanges worktreePath baseSha w =
     (let w1 = best_effort (git_add_all w worktreePath) w
      in case git_diff_staged w1 worktreePath baseSha of
           Inr stdout \<Rightarrow> (stdout, w1)
         | Inl _ \<Rightarrow> ([], w1))"

definition readAndRemoveResponse :: "string \<Rightarrow> string \<Rightarrow> world \<Rightarrow> string option \<times> world" where
  "readAndRemoveResponse worktreePath responseFilename w =
     (let responsePath = path_join [worktreePath, responseFilename]
      in case readFile w responsePath of
           Inl _ \<Rightarrow> (None, w)
         | Inr content \<Rightarrow>
             (case unlink w responsePath of
                Inl _ \<Rightarrow> (None, w)
              | Inr w' \<Rightarrow> (Some content, w')))"


section \<open>index.ts: the \<open>phone_a_friend\<close> handler\<close>

record tool_result =
  result_text :: string
  is_error :: bool

text \<open>
  What a run of the handler leaves behind: the result it returns (or the error it
  rejects with), the world, the functions it called in order, each with its arguments,
  and the lines it wrote with \<open>console.error\<close>.
\<close>

datatype call =
    IsGitRepo string
  | GetGitRoot string
  | GenerateWorktreePath string
  | CreateWorktree string string
  | GetHeadSha string
  | RunCopilotCli string string string
  | ReadAndRemoveResponse string string
  | CaptureChanges string string
  | RemoveWorktree string string

record run =
  outcome :: "error + tool_result"
  final :: world
  calls :: "call list"
  console :: "(string \<times> error) list"

definition no_response_notice :: string where
  "no_response_notice =
     ''*No response file was created. The agent may have failed '' @
     ''to follow the message-in-a-bottle instructions.*''"

definition responsePart :: "string option \<Rightarrow> string" where
  \<comment> \<open>\<open>if (response)\<close>: \<open>null\<close> and the empty string are both falsy\<close>
  "responsePart response =
     (case response of
        Some r \<Rightarrow>
          if r \<noteq> [] then ''## Agent Response\<newline>\<newline>'' @ r
          else ''## Agent Response\<newline>\<newline>'' @ no_response_notice
      | None \<Rightarrow> ''## Agent Response\<newline>\<newline>'' @ no_response_notice)"

definition changesPart :: "string \<Rightarrow> string" where
  "changesPart diff =
     (if trim diff \<noteq> []
      then ''## File Changes (unified diff)\<newline>\<newline>```diff\<newline>'' @ diff @ ''\<newline>```''
      else ''## File Changes\<newline>\<newline>No file changes were made.'')"

definition warningsParts :: "int \<Rightarrow> string \<Rightarrow> string list" where
  "warningsParts exitCode stderr =
     (if exitCode \<noteq> 0
      then [''## Warnings\<newline>\<newline>Copilot CLI exited with code '' @ show_int exitCode @ ''.'' @
            (if stderr \<noteq> [] then ''\<newline>\<newline>Stderr:\<newline>'' @ stderr else [])]
      else [])"

definition sizeParts :: "string \<Rightarrow> string list" where
  "sizeParts prompt =
     (case promptSizeWarning prompt of
        Some sizeWarning \<Rightarrow>
          if sizeWarning \<noteq> [] then [''## Context Size Notice\<newline>\<newline>'' @ sizeWarning] else []
      | None \<Rightarrow> [])"

definition handler_try ::
  "agent \<Rightarrow> string \<Rightarrow> string \<Rightarrow> ToolMode \<Rightarrow> string \<Rightarrow> string \<Rightarrow> world
     \<Rightarrow> (error + tool_result) \<times> world \<times> call list" where
  \<comment> \<open>the \<open>try\<close> block\<close>
  "handler_try agent prompt model toolMode gitRoot worktreePath w =
     (case createWorktree gitRoot worktreePath w of
        (Inl e, w1) \<Rightarrow> (Inl e, w1, [CreateWorktree gitRoot worktreePath])
      | (Inr _, w1) \<Rightarrow>
          (case getHeadSha w1 worktreePath of
             Inl e \<Rightarrow> (Inl e, w1, [CreateWorktree gitRoot worktreePath, GetHeadSha worktreePath])
           | Inr baseSha \<Rightarrow>
               let wrappedPrompt = wrapPrompt prompt toolMode
               in (case runCopilotCli agent worktreePath wrappedPrompt model w1 of
                     (Inl e, w2) \<Rightarrow>
                       (Inl e, w2,
                        [CreateWorktree gitRoot worktreePath, GetHeadSha worktreePath,
                         RunCopilotCli worktreePath wrappedPrompt model])
                   | (Inr (exitCode, stderr), w2) \<Rightarrow>
                       let (response, w3) = readAndRemoveResponse worktreePath RESPONSE_FILENAME w2;
                           parts1 = [responsePart response];
                           (parts2, w4, cs) =
                             (if toolMode = Default then
                                let (diff, w4) = captureChanges worktreePath baseSha w3
                                in (parts1 @ [changesPart diff], w4, [CaptureChanges worktreePath baseSha])
                              else (parts1, w3, []));
                           parts3 = parts2 @ warningsParts exitCode stderr;
                           parts4 = parts3 @ sizeParts prompt
                       in (Inr \<lparr>result_text = join_sep ''\<newline>\<newline>'' parts4, is_error = False\<rparr>,
                           w4,
                           [CreateWorktree gitRoot worktreePath, GetHeadSha worktreePath,
                            RunCopilotCli worktreePath wrappedPrompt model,
                            ReadAndRemoveResponse worktreePath RESPONSE_FILENAME] @ cs))))"

definition cleanup_failed :: "string \<Rightarrow> string" where
  "cleanup_failed worktreePath = ''[phone-a-friend] worktree cleanup failed for '' @ worktreePath @ '':''"

text \<open>
  The handler. \<open>timestamp\<close> and \<open>random36\<close> are the readings of the clock and of the
  random generator that \<open>generateWorktreePath\<close> takes. The \<open>finally\<close> block runs
  after the \<open>try\<close> block however that ended, and keeps its outcome.
\<close>

definition handler ::
  "agent \<Rightarrow> nat \<Rightarrow> string \<Rightarrow> string \<Rightarrow> string \<Rightarrow> string \<Rightarrow> ToolMode option \<Rightarrow> world \<Rightarrow> run" where
  "handler agent timestamp random36 prompt model working_directory mode w =
     (let workDir = resolve (cwd w) working_directory;
          toolMode = (case mode of None \<Rightarrow> Default | Some m \<Rightarrow> m)
      in if \<not> isGitRepo w workDir then
           \<lparr>outcome = Inr \<lparr>result_text = ''Error: '' @ workDir @ '' is not inside a git repository.'',
                           is_error = True\<rparr>,
            final = w, calls = [IsGitRepo workDir], console = []\<rparr>
         else
           case getGitRoot w workDir of
             Inl e \<Rightarrow>
               \<lparr>outcome = Inl e, final = w,
                calls = [IsGitRepo workDir, GetGitRoot workDir], console = []\<rparr>
           | Inr gitRoot \<Rightarrow>
               let worktreePath = generateWorktreePath gitRoot timestamp random36;
                   (result, w1, cs) = handler_try agent prompt model toolMode gitRoot worktreePath w;
                   (cleanup, w2) = removeWorktree gitRoot worktreePath w1
               in \<lparr>outcome = result, final = w2,
                   calls = [IsGitRepo workDir, GetGitRoot workDir, GenerateWorktreePath gitRoot]
                           @ cs @ [RemoveWorktree gitRoot worktreePath],
                   console = (case cleanup of
                                Inl err \<Rightarrow> [(cleanup_failed worktreePath, err)]
                              | Inr _ \<Rightarrow> [])\<rparr>)"



section \<open>Notions for stating the properties\<close>

fun isRemoveWorktree :: "call \<Rightarrow> bool" where
  "isRemoveWorktree (RemoveWorktree repoDir worktreePath) = True"
| "isRemoveWorktree _ = False"


definition plain_segment :: "string \<Rightarrow> bool" where
  \<comment> \<open>a path segment that normalisation keeps as it is\<close>
  "plain_segment n = (n \<noteq> [] \<and> n \<noteq> ''.'' \<and> n \<noteq> ''..'' \<and> CHR ''/'' \<notin> set n)"

definition worktree_name :: "nat \<Rightarrow> string \<Rightarrow> string" where
  \<comment> \<open>the last segment that \<open>generateWorktreePath\<close> builds\<close>
  "worktree_name timestamp random36 = ''paf-'' @ show_nat timestamp @ ''-'' @ substring 2 8 random36"

definition drop_response :: "agent \<Rightarrow> agent" where
  \<comment> \<open>the same agent, except that it leaves no response file behind\<close>
  "drop_response agent dir args w =
     (case agent dir args w of
        (e, w') \<Rightarrow>
          (e, w'\<lparr>files := filter (\<lambda>(q, c). q \<noteq> path_join [dir, RESPONSE_FILENAME]) (files w')\<rparr>))"






section \<open>Example worlds and agents\<close>

text \<open>
  The example worlds hold one repository at \<open>/repo\<close> with a single commit \<open>c0\<close>
  of one file; \<open>/tmp\<close> lies outside it. The argument says which external calls fail.
  \<open>worktree_world\<close> is the world that \<open>createWorktree\<close> makes of \<open>repo_world\<close> for
  the path generated at timestamp 5 from the random text \<open>0.abcdefgh\<close>.
\<close>

definition repo_world :: "(op \<Rightarrow> bool) \<Rightarrow> world" where
  "repo_world f =
     \<lparr>cwd = ''/home/user'',
      toplevel = [''/repo'' \<mapsto> ''/repo''],
      head_of = [''/repo'' \<mapsto> ''c0''],
      staged = (\<lambda>t. if t = ''/repo'' then [(''README.md'', ''# Test\<newline>'')] else []),
      objects = [''c0'' \<mapsto> [(''README.md'', ''# Test\<newline>'')]],
      ignored = (\<lambda>t p. False),
      linked = {},
      branches = {(''/repo'', ''main'')},
      dirs = {''/repo'', ''/tmp''},
      files = [(''/repo/README.md'', ''# Test\<newline>'')],
      faults = f\<rparr>"

definition example_path :: string where
  "example_path = ''/repo/.worktrees/paf-5-abcdef''"

definition worktree_world :: "(op \<Rightarrow> bool) \<Rightarrow> world" where
  "worktree_world f =
     \<lparr>cwd = ''/home/user'',
      toplevel = [''/repo'' \<mapsto> ''/repo'', example_path \<mapsto> example_path],
      head_of = [''/repo'' \<mapsto> ''c0'', example_path \<mapsto> ''c0''],
      staged = (\<lambda>t. if t = ''/repo'' then [(''README.md'', ''# Test\<newline>'')] else [])
                 (example_path := [(''README.md'', ''# Test\<newline>'')]),
      objects = [''c0'' \<mapsto> [(''README.md'', ''# Test\<newline>'')]],
      ignored = (\<lambda>t p. False),
      linked = {example_path},
      branches = {(''/repo'', ''paf/paf-5-abcdef''), (''/repo'', ''main'')},
      dirs = {example_path, ''/repo'', ''/tmp'', ''/repo/.worktrees''},
      files = [(example_path @ ''/README.md'', ''# Test\<newline>''),
               (''/repo/README.md'', ''# Test\<newline>'')],
      faults = f\<rparr>"

definition no_faults :: "op \<Rightarrow> bool" where
  "no_faults c = False"

definition remove_and_rm_fail :: "op \<Rightarrow> bool" where
  \<comment> \<open>\<open>git worktree remove\<close> fails and so does deleting files\<close>
  "remove_and_rm_fail c = (c = GitWorktreeRemove \<or> c = Rm)"

definition git_cleanup_fails :: "op \<Rightarrow> bool" where
  \<comment> \<open>every git command of the clean-up fails; deleting files works\<close>
  "git_cleanup_fails c = (c \<in> {GitWorktreeRemove, GitWorktreePrune, GitBranchDelete})"

definition rm_fails :: "op \<Rightarrow> bool" where
  "rm_fails c = (c = Rm)"

definition idle_agent :: agent where
  \<comment> \<open>changes nothing and exits with code 0\<close>
  "idle_agent dir args w = (Closed (Some 0) [], w)"

definition failing_agent :: agent where
  \<comment> \<open>changes nothing and exits with code 1\<close>
  "failing_agent dir args w = (Closed (Some 1) ''boom'', w)"




section \<open>Facts about strings, lists and association lists\<close>

lemma sublist_app_right: "sublist x ys \<Longrightarrow> sublist x (zs @ ys)"
  by (auto simp: sublist_def) (metis append.assoc)


lemma sublist_self: "sublist x x"
  by simp



lemma join_sep_snoc: "xs \<noteq> [] \<Longrightarrow> join_sep sep (xs @ [y]) = join_sep sep xs @ sep @ y"
  by (induction sep xs rule: join_sep.induct) auto






lemma append_sep_inj:
  "c \<notin> set a \<Longrightarrow> c \<notin> set b \<Longrightarrow> a @ c # x = b @ c # y \<Longrightarrow> a = b \<and> x = y"
proof (induction a arbitrary: b)
  case Nil
  then show ?case by (cases b) auto
next
  case (Cons h a)
  then show ?case by (cases b) auto
qed

lemma digit_inj: "a < 10 \<Longrightarrow> b < 10 \<Longrightarrow> digit a = digit b \<Longrightarrow> a = b"
proof -
  assume a: "a < 10" and b: "b < 10" and e: "digit a = digit b"
  from a have "a \<in> {0,1,2,3,4,5,6,7,8,9}" by auto
  moreover from b have "b \<in> {0,1,2,3,4,5,6,7,8,9}" by auto
  ultimately show ?thesis using e by (auto simp: digit_def)
qed

lemma digit_is_digit: "d < 10 \<Longrightarrow> digit d \<in> set ''0123456789''"
  unfolding digit_def by (rule nth_mem) simp

lemma show_nat_chars: "set (show_nat n) \<subseteq> set ''0123456789''"
proof (induction n rule: show_nat.induct)
  case (1 n)
  show ?case
  proof (cases "n < 10")
    case True
    then show ?thesis using digit_is_digit [of n] by (simp add: show_nat.simps [of n])
  next
    case False
    have "n mod 10 < 10" by simp
    then have "digit (n mod 10) \<in> set ''0123456789''" by (rule digit_is_digit)
    then show ?thesis using 1 False by (simp add: show_nat.simps [of n])
  qed
qed

lemma show_nat_nonempty: "show_nat n \<noteq> []"
  by (cases "n < 10") (simp_all add: show_nat.simps [of n])

lemma show_nat_inj: "show_nat m = show_nat n \<Longrightarrow> m = n"
proof (induction m arbitrary: n rule: show_nat.induct)
  case (1 m)
  show ?case
  proof (cases "m < 10")
    case True
    show ?thesis
    proof (cases "n < 10")
      case n: True
      then show ?thesis using True 1(2) digit_inj [of m n]
        by (simp add: show_nat.simps [of m] show_nat.simps [of n])
    next
      case False
      then show ?thesis using True 1(2) show_nat_nonempty [of "n div 10"]
        by (simp add: show_nat.simps [of m] show_nat.simps [of n])
    qed
  next
    case False
    show ?thesis
    proof (cases "n < 10")
      case True
      then show ?thesis using False 1(2) show_nat_nonempty [of "m div 10"]
        by (simp add: show_nat.simps [of m] show_nat.simps [of n])
    next
      case n: False
      from 1(2) False n have e: "show_nat (m div 10) = show_nat (n div 10)"
        and d: "digit (m mod 10) = digit (n mod 10)"
        by (simp_all add: show_nat.simps [of m] show_nat.simps [of n])
      from 1(1) [OF False e] have "m div 10 = n div 10" .
      moreover have "m mod 10 = n mod 10"
        using d by (intro digit_inj) simp_all
      ultimately show ?thesis by (metis div_mult_mod_eq)
    qed
  qed
qed

lemma split_on_none: "c \<notin> set n \<Longrightarrow> split_on c n = [n]"
  by (induction n) auto

lemma split_on_nonempty: "split_on c xs \<noteq> []"
  by (induction xs) (auto split: list.splits)

lemma split_on_snoc: "c \<notin> set n \<Longrightarrow> split_on c (xs @ c # n) = split_on c xs @ [n]"
  using split_on_nonempty [of c]
  by (induction xs) (auto simp: split_on_none split: list.splits)

lemma normalizeSegs_snoc:
  "plain_segment n \<Longrightarrow> normalizeSegs a res (xs @ [n]) = normalizeSegs a res xs @ [n]"
  by (induction xs arbitrary: res) (auto simp: plain_segment_def)


section \<open>util.ts: the wrapped prompt\<close>

lemma wrapPrompt_prompt: "sublist p (wrapPrompt p m)"
  unfolding wrapPrompt_def
  by (cases m)
     (simp_all only: ToolMode.distinct if_False if_True refl,
      (intro sublist_self sublist_app_right)+)

lemma wrapPrompt_filename: "sublist RESPONSE_FILENAME (wrapPrompt p m)"
  unfolding wrapPrompt_def
  by (cases m)
     (simp_all only: ToolMode.distinct if_False if_True refl,
      (intro sublist_append_rightI sublist_app_right)+)

lemma wrapPrompt_no_nul: "CHR 0x00 \<notin> set p \<Longrightarrow> CHR 0x00 \<notin> set (wrapPrompt p m)"
  by (simp add: wrapPrompt_def RESPONSE_FILENAME_def dash_def)

text \<open>
  Claim C8. For every user prompt and for both modes, the text that \<open>wrapPrompt\<close>
  returns contains the user prompt verbatim and contains the literal file name
  \<open>.paf-response.md\<close>.
\<close>

theorem wrapPrompt_embeds_prompt_and_filename:
  "str_includes (wrapPrompt userPrompt mode) userPrompt \<and>
   str_includes (wrapPrompt userPrompt mode) ''.paf-response.md''"
  using wrapPrompt_prompt [of userPrompt mode] wrapPrompt_filename [of userPrompt mode]
  by (simp add: str_includes_def RESPONSE_FILENAME_def)


section \<open>util.ts: the names of work trees\<close>

lemma worktree_name_inj:
  "worktree_name t1 r1 = worktree_name t2 r2 \<longleftrightarrow> t1 = t2 \<and> substring 2 8 r1 = substring 2 8 r2"
proof
  assume "worktree_name t1 r1 = worktree_name t2 r2"
  then have e: "show_nat t1 @ CHR ''-'' # substring 2 8 r1 = show_nat t2 @ CHR ''-'' # substring 2 8 r2"
    by (simp add: worktree_name_def)
  have "CHR ''-'' \<notin> set (show_nat t1)" "CHR ''-'' \<notin> set (show_nat t2)"
    using show_nat_chars [of t1] show_nat_chars [of t2] by auto
  from append_sep_inj [OF this e] show "t1 = t2 \<and> substring 2 8 r1 = substring 2 8 r2"
    using show_nat_inj by blast
next
  assume "t1 = t2 \<and> substring 2 8 r1 = substring 2 8 r2"
  then show "worktree_name t1 r1 = worktree_name t2 r2" by (simp add: worktree_name_def)
qed

lemma worktree_name_plain:
  assumes "CHR ''/'' \<notin> set r"
  shows "plain_segment (worktree_name t r)"
proof -
  have "CHR ''/'' \<notin> set (show_nat t)" using show_nat_chars [of t] by auto
  moreover have "CHR ''/'' \<notin> set (substring 2 8 r)"
    using assms by (auto simp: substring_def dest: in_set_takeD in_set_dropD)
  ultimately show ?thesis by (simp add: plain_segment_def worktree_name_def)
qed

lemma path_join_plain:
  "\<exists>q. \<forall>m. plain_segment m \<longrightarrow> path_join [baseDir, ''.worktrees'', m] = q @ m
                \<and> last (split_on (CHR ''/'') (q @ m)) = m"
proof -
  define j where "j = (if baseDir = [] then ''.worktrees'' else baseDir @ ''/.worktrees'')"
  define segs where "segs = normalizeSegs (\<not> isAbsolute j) [] (split_on (CHR ''/'') j)"
  define q where "q = (if isAbsolute j then ''/'' else []) @ (if segs = [] then [] else join_sep ''/'' segs @ ''/'')"
  have jne: "j \<noteq> []" by (simp add: j_def)
  have "path_join [baseDir, ''.worktrees'', m] = q @ m
          \<and> last (split_on (CHR ''/'') (q @ m)) = m" if m: "plain_segment m" for m
  proof -
    have mne: "m \<noteq> []" and ms: "CHR ''/'' \<notin> set m" using m by (simp_all add: plain_segment_def)
    have joined: "join_sep ''/'' (filter (\<lambda>a. a \<noteq> []) [baseDir, ''.worktrees'', m]) = j @ CHR ''/'' # m"
      using mne by (simp add: j_def)
    have abs: "isAbsolute (j @ CHR ''/'' # m) = isAbsolute j"
      using jne by (cases j) (simp_all add: isAbsolute_def)
    have lst: "last (j @ CHR ''/'' # m) \<noteq> CHR ''/''"
      using mne ms by (metis last_ConsR last_appendR last_in_set list.distinct(1))
    have sp: "split_on (CHR ''/'') (j @ CHR ''/'' # m) = split_on (CHR ''/'') j @ [m]"
      using ms by (rule split_on_snoc)
    have ns: "normalizeString (j @ CHR ''/'' # m) (\<not> isAbsolute j) = join_sep ''/'' (segs @ [m])"
      by (simp add: normalizeString_def sp normalizeSegs_snoc [OF m] segs_def)
    have js: "join_sep ''/'' (segs @ [m]) = (if segs = [] then [] else join_sep ''/'' segs @ ''/'') @ m"
      by (cases "segs = []") (simp_all add: join_sep_snoc)
    have ne: "join_sep ''/'' (segs @ [m]) \<noteq> []" unfolding js using mne by simp
    have pj: "path_join [baseDir, ''.worktrees'', m] = q @ m"
      unfolding path_join_def joined Let_def normalize_def abs ns
      using lst ne by (simp add: js q_def)
    have "last (split_on (CHR ''/'') (q @ m)) = m"
    proof (cases "q = []")
      case True
      then show ?thesis using ms by (simp add: split_on_none)
    next
      case False
      then have "\<exists>q'. q = q' @ ''/''"
        by (auto simp: q_def split: if_splits)
      then obtain q' where "q = q' @ ''/''" by blast
      then show ?thesis using split_on_snoc [OF ms, of q'] by simp
    qed
    with pj show ?thesis by simp
  qed
  then show ?thesis by blast
qed

lemma generateWorktreePath_name:
  "generateWorktreePath baseDir t r = path_join [baseDir, ''.worktrees'', worktree_name t r]"
  by (simp add: generateWorktreePath_def worktree_name_def Let_def)

text \<open>
  Claim C4, as the code has it. The generated path is a function of the repository root,
  the clock reading and the first six base-36 digits of the random number, and of nothing
  else. For one root, two calls give the same path, and the same branch name, exactly
  when they read the same millisecond and draw the same six digits; they give distinct
  paths and branch names whenever the timestamps differ or the six digits differ. (The
  text of a random number never holds a separator.)
\<close>

theorem generateWorktreePath_collides_iff_same_name:
  assumes "CHR ''/'' \<notin> set random1" and "CHR ''/'' \<notin> set random2"
  shows "(generateWorktreePath baseDir t1 random1 = generateWorktreePath baseDir t2 random2
            \<longleftrightarrow> t1 = t2 \<and> substring 2 8 random1 = substring 2 8 random2)
       \<and> (branchName (generateWorktreePath baseDir t1 random1)
            = branchName (generateWorktreePath baseDir t2 random2)
            \<longleftrightarrow> t1 = t2 \<and> substring 2 8 random1 = substring 2 8 random2)"
proof -
  let ?n1 = "worktree_name t1 random1" and ?n2 = "worktree_name t2 random2"
  have p1: "plain_segment ?n1" using assms(1) by (rule worktree_name_plain)
  have p2: "plain_segment ?n2" using assms(2) by (rule worktree_name_plain)
  from path_join_plain [of baseDir] obtain q where
    q: "\<forall>m. plain_segment m \<longrightarrow> path_join [baseDir, ''.worktrees'', m] = q @ m
                \<and> last (split_on (CHR ''/'') (q @ m)) = m"
    by blast
  have g1: "generateWorktreePath baseDir t1 random1 = q @ ?n1"
    and g2: "generateWorktreePath baseDir t2 random2 = q @ ?n2"
    using q p1 p2 by (simp_all add: generateWorktreePath_name)
  have b1: "branchName (generateWorktreePath baseDir t1 random1) = ''paf/'' @ ?n1"
    and b2: "branchName (generateWorktreePath baseDir t2 random2) = ''paf/'' @ ?n2"
    using q p1 p2 by (simp_all add: branchName_def g1 g2)
  have P: "generateWorktreePath baseDir t1 random1 = generateWorktreePath baseDir t2 random2
             \<longleftrightarrow> ?n1 = ?n2"
    by (simp add: g1 g2)
  have B: "branchName (generateWorktreePath baseDir t1 random1)
             = branchName (generateWorktreePath baseDir t2 random2) \<longleftrightarrow> ?n1 = ?n2"
    by (simp add: b1 b2)
  show ?thesis
    unfolding P B using worktree_name_inj [of t1 random1 t2 random2] by simp
qed

text \<open>
  The claim as the specification states it, that two calls in the same millisecond never
  collide, fails: two different random numbers that share their first six digits give one
  path and one branch name.
\<close>

theorem generateWorktreePath_same_millisecond_collision:
  "''0.abcdefgh1jk'' \<noteq> ''0.abcdefzz9qr''
   \<and> generateWorktreePath ''/repo'' 1700000000000 ''0.abcdefgh1jk''
       = generateWorktreePath ''/repo'' 1700000000000 ''0.abcdefzz9qr''
   \<and> branchName (generateWorktreePath ''/repo'' 1700000000000 ''0.abcdefgh1jk'')
       = branchName (generateWorktreePath ''/repo'' 1700000000000 ''0.abcdefzz9qr'')"
  by (simp add: generateWorktreePath_def substring_def)

theorem generateWorktreePath_collides_iff_same_name_witness:
  "CHR ''/'' \<notin> set ''0.abcdefgh1jk'' \<and> CHR ''/'' \<notin> set ''0.zyxwvuts2mn''
   \<and> generateWorktreePath ''/repo'' 1700000000000 ''0.abcdefgh1jk''
       \<noteq> generateWorktreePath ''/repo'' 1700000000000 ''0.zyxwvuts2mn''
   \<and> generateWorktreePath ''/repo'' 1700000000000 ''0.abcdefgh1jk''
       \<noteq> generateWorktreePath ''/repo'' 1700000000001 ''0.abcdefgh1jk''
   \<and> branchName (generateWorktreePath ''/repo'' 1700000000000 ''0.abcdefgh1jk'')
       \<noteq> branchName (generateWorktreePath ''/repo'' 1700000000000 ''0.zyxwvuts2mn'')"
proof -
  have a: "CHR ''/'' \<notin> set ''0.abcdefgh1jk''" and b: "CHR ''/'' \<notin> set ''0.zyxwvuts2mn''"
    by simp_all
  show ?thesis
    using generateWorktreePath_collides_iff_same_name [OF a b, of "''/repo''" 1700000000000 1700000000000]
          generateWorktreePath_collides_iff_same_name [OF a a, of "''/repo''" 1700000000000 1700000000001]
          a b
    by (simp add: substring_def)
qed


section \<open>util.ts: the size warning\<close>

lemma math_round_div_nearest: "int (math_round_div n 1024) = \<lfloor>real n / 1024 + 1 / 2\<rfloor>"
proof -
  have "real n / 1024 + 1 / 2 = real (2 * n + 1024) / real (2 * 1024)" by simp
  then show ?thesis unfolding math_round_div_def by (simp only: floor_divide_of_nat_eq)
qed

lemma promptSizeWarning_None: "promptSizeWarning p = None \<longleftrightarrow> length p < 10240"
  by (simp add: promptSizeWarning_def PROMPT_SIZE_WARNING_THRESHOLD_def Let_def)

lemma promptSizeWarning_Some:
  assumes "10240 \<le> length p"
  shows "\<exists>w. promptSizeWarning p = Some w \<and> w \<noteq> [] \<and>
     str_includes w (''~'' @ show_nat (math_round_div (length p) 1024) @ ''KB'')"
proof -
  let ?k = "show_nat (math_round_div (length p) 1024)"
  obtain w where w: "promptSizeWarning p = Some w"
    using assms promptSizeWarning_None [of p] by fastforce
  have "\<exists>a b. w = a @ (''~'' @ ?k @ ''KB'') @ b"
    using w assms
    apply (simp add: promptSizeWarning_def PROMPT_SIZE_WARNING_THRESHOLD_def Let_def)
    apply (rule exI [of _ "''**Large prompt warning:** The prompt sent to the subagent was ''"])
    apply auto
    done
  then show ?thesis using w by (auto simp: str_includes_def sublist_def)
qed

lemma sizeParts_Some:
  "promptSizeWarning p = Some w \<Longrightarrow> w \<noteq> [] \<Longrightarrow>
   sizeParts p = [''## Context Size Notice\<newline>\<newline>'' @ w]"
  by (simp add: sizeParts_def)


section \<open>The environment\<close>

lemma path_under_self: "path_under p p"
  by (simp add: path_under_def)

lemma map_of_filter_under: "map_of (filter (\<lambda>(q, c). \<not> path_under p q) fs) p = None"
  by (induction fs) (auto simp: path_under_self)

lemma not_exists_remove_under: "\<not> existsSync (remove_under p w) p"
  by (simp add: existsSync_def remove_under_def map_of_filter_under path_under_self)











lemma unified_diff_same: "unified_diff tr tr = []"
  by (simp add: unified_diff_def changed_paths_def)


section \<open>The example worlds\<close>

lemma show_nat_5: "show_nat 5 = ''5''"
  by (simp add: show_nat.simps digit_def)

lemma show_nat_15: "show_nat 15 = ''15''"
  by (simp add: show_nat.simps digit_def)

lemma example_path_generated: "generateWorktreePath ''/repo'' 5 ''0.abcdefgh'' = example_path"
  by (simp add: generateWorktreePath_def substring_def show_nat_5 path_join_def normalize_def
        normalizeString_def isAbsolute_def example_path_def Let_def)

lemma example_parent: "path_join [example_path, ''..''] = ''/repo/.worktrees''"
  by (simp add: path_join_def normalize_def normalizeString_def isAbsolute_def example_path_def Let_def)

lemma example_branch: "branchName example_path = ''paf/paf-5-abcdef''"
  by (simp add: branchName_def example_path_def)


lemma resolve_repo: "resolve ''/home/user'' ''/repo'' = ''/repo''"
  by (simp add: resolve_def isAbsolute_def normalizeString_def)

lemma resolve_tmp: "resolve ''/home/user'' ''/tmp'' = ''/tmp''"
  by (simp add: resolve_def isAbsolute_def normalizeString_def)

lemma trim_repo: "trim ''/repo\<newline>'' = ''/repo''"
  by (simp add: trim_def is_space_def)

lemma trim_c0: "trim ''c0\<newline>'' = ''c0''"
  by (simp add: trim_def is_space_def)

lemma created_world:
  assumes "\<not> f Mkdir" "\<not> f GitWorktreeAdd"
  shows "createWorktree ''/repo'' example_path (repo_world f) = (Inr (), worktree_world f)"
  using assms
  apply (simp add: createWorktree_def example_parent example_branch existsSync_def repo_world_def
       mkdir_recursive_def git_worktree_add_def Let_def worktree_world_def)
  apply (auto simp add: example_path_def)
  done

lemma example_isGitRepo:
  "\<not> f GitRevParseGitDir \<Longrightarrow> isGitRepo (repo_world f) (resolve (cwd (repo_world f)) ''/repo'')"
  by (simp add: repo_world_def resolve_repo isGitRepo_def git_rev_parse_git_dir_def)

lemma example_getGitRoot:
  "\<not> f GitRevParseShowToplevel \<Longrightarrow>
   getGitRoot (repo_world f) (resolve (cwd (repo_world f)) ''/repo'') = Inr ''/repo''"
  by (simp add: repo_world_def resolve_repo getGitRoot_def git_rev_parse_show_toplevel_def trim_repo)

lemma example_getHeadSha:
  "\<not> f GitRevParseHead \<Longrightarrow> getHeadSha (worktree_world f) example_path = Inr ''c0''"
  by (simp add: worktree_world_def getHeadSha_def git_rev_parse_head_def trim_c0)

lemma example_tree_no_foo: "map_of [(''README.md'', ''# Test\<newline>'')] ''foo.txt'' = None"
  by simp


section \<open>git.ts: removing a work tree\<close>

lemma removeWorktree_ok_without_rm_fault:
  "\<not> faults w Rm \<Longrightarrow> fst (removeWorktree repoDir worktreePath w) = Inr ()"
  by (simp add: removeWorktree_def rm_recursive_force_def split: sum.splits)

lemma removeWorktree_ok_when_absent:
  "\<not> existsSync w worktreePath \<Longrightarrow> fst (removeWorktree repoDir worktreePath w) = Inr ()"
  by (simp add: removeWorktree_def split: sum.splits)

lemma prune_exists:
  "existsSync (best_effort (git_worktree_prune w d) w) p = existsSync w p"
  by (simp add: best_effort_def git_worktree_prune_def existsSync_def)

lemma branch_delete_exists:
  "existsSync (best_effort (git_branch_delete w d n) w) p = existsSync w p"
  by (simp add: best_effort_def git_branch_delete_def existsSync_def split: option.splits)

lemma worktree_remove_exists: "git_worktree_remove w d p = Inr w' \<Longrightarrow> \<not> existsSync w' p"
  using not_exists_remove_under [of p w]
  by (auto simp: git_worktree_remove_def existsSync_def split: if_splits)

lemma rm_exists: "rm_recursive_force w p = Inr w' \<Longrightarrow> \<not> existsSync w' p"
  using not_exists_remove_under [of p w]
  by (auto simp: rm_recursive_force_def split: if_splits)

lemma removeWorktree_removes:
  assumes "fst (removeWorktree repoDir p w) = Inr ()"
  shows "\<not> existsSync (snd (removeWorktree repoDir p w)) p"
proof (cases "git_worktree_remove w repoDir p")
  case (Inr w1)
  then show ?thesis
    using worktree_remove_exists [OF Inr]
    by (simp add: removeWorktree_def branch_delete_exists)
next
  case (Inl e)
  show ?thesis
  proof (cases "existsSync w p")
    case False
    then show ?thesis
      by (simp add: removeWorktree_def Inl branch_delete_exists prune_exists)
  next
    case True
    show ?thesis
    proof (cases "rm_recursive_force w p")
      case (Inl e')
      then show ?thesis using assms True \<open>git_worktree_remove w repoDir p = Inl e\<close>
        by (simp add: removeWorktree_def)
    next
      case (Inr w1)
      then show ?thesis
        using rm_exists [OF Inr] True \<open>git_worktree_remove w repoDir p = Inl e\<close>
        by (simp add: removeWorktree_def branch_delete_exists prune_exists)
    qed
  qed
qed

lemma removeWorktree_raises:
  "faults w GitWorktreeRemove \<Longrightarrow> faults w Rm \<Longrightarrow> existsSync w p \<Longrightarrow>
   fst (removeWorktree r p w) = Inl (Failed Rm)"
  by (simp add: removeWorktree_def git_worktree_remove_def rm_recursive_force_def)

text \<open>
  Claim C6, as the code has it. \<open>removeWorktree\<close> does not raise as long as the
  direct deletion of the directory does not fail: not when \<open>git worktree remove\<close>,
  \<open>git worktree prune\<close> or \<open>git branch -D\<close> fail, in any combination, and not
  when the directory is already gone. After a call that returned, a second call on the
  same work tree returns too.
\<close>

theorem removeWorktree_does_not_raise_unless_rm_fails:
  "(\<not> faults w Rm \<longrightarrow> fst (removeWorktree repoDir worktreePath w) = Inr ()) \<and>
   (\<not> existsSync w worktreePath \<longrightarrow> fst (removeWorktree repoDir worktreePath w) = Inr ()) \<and>
   (fst (removeWorktree repoDir worktreePath w) = Inr () \<longrightarrow>
      fst (removeWorktree repoDir worktreePath (snd (removeWorktree repoDir worktreePath w))) = Inr ())"
  using removeWorktree_ok_without_rm_fault [of w repoDir worktreePath]
        removeWorktree_ok_when_absent [of w worktreePath repoDir]
        removeWorktree_removes [of repoDir worktreePath w]
        removeWorktree_ok_when_absent [of "snd (removeWorktree repoDir worktreePath w)" worktreePath repoDir]
  by blast

text \<open>
  The claim as the specification states it, that no failure of a sub-step makes
  \<open>removeWorktree\<close> raise, fails for the deletion of the directory: in the world
  that \<open>createWorktree\<close> leaves, with \<open>git worktree remove\<close> and \<open>rm\<close> both
  failing, the rejection of \<open>rm\<close> leaves \<open>removeWorktree\<close>.
\<close>

theorem removeWorktree_raises_when_rm_fails:
  "createWorktree ''/repo'' example_path (repo_world remove_and_rm_fail)
     = (Inr (), worktree_world remove_and_rm_fail)
   \<and> fst (removeWorktree ''/repo'' example_path (worktree_world remove_and_rm_fail))
     = Inl (Failed Rm)"
proof
  show "createWorktree ''/repo'' example_path (repo_world remove_and_rm_fail)
     = (Inr (), worktree_world remove_and_rm_fail)"
    by (rule created_world) (simp_all add: remove_and_rm_fail_def)
  show "fst (removeWorktree ''/repo'' example_path (worktree_world remove_and_rm_fail))
     = Inl (Failed Rm)"
    by (simp add: removeWorktree_def git_worktree_remove_def existsSync_def rm_recursive_force_def
          worktree_world_def remove_and_rm_fail_def)
qed

theorem removeWorktree_does_not_raise_unless_rm_fails_witness:
  "\<not> faults (worktree_world git_cleanup_fails) Rm
   \<and> fst (removeWorktree ''/repo'' example_path
            (worktree_world git_cleanup_fails)) = Inr ()
   \<and> \<not> existsSync (repo_world rm_fails) example_path
   \<and> fst (removeWorktree ''/repo'' example_path (repo_world rm_fails)) = Inr ()
   \<and> fst (removeWorktree ''/repo'' example_path
            (snd (removeWorktree ''/repo'' example_path
               (worktree_world git_cleanup_fails)))) = Inr ()"
proof -
  let ?f = git_cleanup_fails
  have a: "\<not> faults (worktree_world ?f) Rm"
    by (simp add: worktree_world_def git_cleanup_fails_def)
  have b: "\<not> existsSync (repo_world rm_fails) example_path"
    by (simp add: existsSync_def repo_world_def example_path_def)
  show ?thesis
    using removeWorktree_does_not_raise_unless_rm_fails [of "worktree_world ?f" "''/repo''" example_path]
          removeWorktree_does_not_raise_unless_rm_fails [of "repo_world rm_fails" "''/repo''" example_path]
          a b
    by simp
qed


section \<open>git.ts: reading the response and capturing the changes\<close>

lemma readAndRemoveResponse_frame:
  "toplevel (snd (readAndRemoveResponse wt fn w)) = toplevel w
   \<and> faults (snd (readAndRemoveResponse wt fn w)) = faults w
   \<and> objects (snd (readAndRemoveResponse wt fn w)) = objects w
   \<and> staged (snd (readAndRemoveResponse wt fn w)) = staged w
   \<and> ignored (snd (readAndRemoveResponse wt fn w)) = ignored w
   \<and> dirs (snd (readAndRemoveResponse wt fn w)) = dirs w"
  by (simp add: readAndRemoveResponse_def Let_def unlink_def split: sum.splits)





lemma captureChanges_frame:
  "faults (snd (captureChanges p b w)) = faults w \<and> dirs (snd (captureChanges p b w)) = dirs w"
  by (simp add: captureChanges_def Let_def best_effort_def git_add_all_def
        split: sum.splits option.splits)

lemma createWorktree_faults: "faults (snd (createWorktree g wt w)) = faults w"
  by (simp add: createWorktree_def Let_def mkdir_recursive_def git_worktree_add_def
        split: sum.splits option.splits)



lemma runCopilotCli_rejects:
  "runCopilotCli agent wt p m w = (Inl e, w2) \<Longrightarrow> w2 = w"
  by (auto simp: runCopilotCli_def split: if_splits prod.splits proc_end.splits)

lemma runCopilotCli_resolves:
  "runCopilotCli agent wt p m w = (Inr st, w2) \<Longrightarrow> w2 = snd (agent wt (copilot_args p m) w)"
  by (auto simp: runCopilotCli_def split: if_splits prod.splits proc_end.splits)

lemma runCopilotCli_closes:
  assumes "CHR 0x00 \<notin> set wt" "CHR 0x00 \<notin> set p" "CHR 0x00 \<notin> set m"
      and "agent wt (copilot_args p m) w = (Closed (Some code) stderr, w2)"
  shows "runCopilotCli agent wt p m w = (Inr (code, stderr), w2)"
  using assms by (simp add: runCopilotCli_def copilot_args_def)


lemma runCopilotCli_drop_response_rejects:
  assumes "runCopilotCli agent wt p m w = (Inl e, w2)"
  shows "runCopilotCli (drop_response agent) wt p m w = (Inl e, w2)"
  using assms
  by (auto simp: runCopilotCli_def drop_response_def split: if_splits prod.splits proc_end.splits)

text \<open>
  Claim C3. The claim asks for a marker of failure that differs from the empty diff.
  The code has none: when \<open>git diff\<close> fails, here on a commit that does not exist,
  \<open>captureChanges\<close> returns the empty string, which is also what it returns in
  the same work tree when nothing has changed.
\<close>

theorem captureChanges_failure_looks_like_no_changes:
  "git_diff_staged (worktree_world no_faults) example_path ''0000000000000000000000000000000000000000''
     = Inl (Failed GitDiffStaged)
   \<and> fst (captureChanges example_path ''0000000000000000000000000000000000000000''
            (worktree_world no_faults)) = []
   \<and> fst (captureChanges example_path ''c0'' (worktree_world no_faults)) = []"
  by (simp add: captureChanges_def git_add_all_def git_diff_staged_def best_effort_def Let_def
        worktree_world_def no_faults_def stage_all_def work_tree_def unified_diff_same example_path_def)


section \<open>index.ts: the shape of a run\<close>

lemma handler_not_repo:
  assumes "\<not> isGitRepo w (resolve (cwd w) wd)"
  shows "handler agent ts rnd prompt model wd mode w =
     \<lparr>outcome = Inr \<lparr>result_text = ''Error: '' @ resolve (cwd w) wd @ '' is not inside a git repository.'',
                     is_error = True\<rparr>,
      final = w, calls = [IsGitRepo (resolve (cwd w) wd)], console = []\<rparr>"
  using assms by (simp add: handler_def Let_def)

lemma handler_no_root:
  assumes "isGitRepo w (resolve (cwd w) wd)"
      and "getGitRoot w (resolve (cwd w) wd) = Inl e"
  shows "handler agent ts rnd prompt model wd mode w =
     \<lparr>outcome = Inl e, final = w,
      calls = [IsGitRepo (resolve (cwd w) wd), GetGitRoot (resolve (cwd w) wd)], console = []\<rparr>"
  using assms by (simp add: handler_def Let_def)

lemma handler_in_repo:
  assumes "isGitRepo w (resolve (cwd w) wd)"
      and "getGitRoot w (resolve (cwd w) wd) = Inr g"
  shows "handler agent ts rnd prompt model wd mode w =
     (let workDir = resolve (cwd w) wd;
          wt = generateWorktreePath g ts rnd;
          T = handler_try agent prompt model (case mode of None \<Rightarrow> Default | Some m \<Rightarrow> m) g wt w;
          R = removeWorktree g wt (fst (snd T))
      in \<lparr>outcome = fst T, final = snd R,
          calls = [IsGitRepo workDir, GetGitRoot workDir, GenerateWorktreePath g]
                  @ snd (snd T) @ [RemoveWorktree g wt],
          console = (case fst R of Inl err \<Rightarrow> [(cleanup_failed wt, err)] | Inr _ \<Rightarrow> [])\<rparr>)"
  using assms by (simp add: handler_def Let_def split: prod.splits)

lemma handler_try_run:
  assumes "createWorktree g wt w = (Inr (), w1)"
      and "getHeadSha w1 wt = Inr base"
      and "runCopilotCli agent wt (wrapPrompt prompt tm) model w1 = (Inr (exitCode, stderr), w2)"
  shows "handler_try agent prompt model tm g wt w =
     (let R = readAndRemoveResponse wt RESPONSE_FILENAME w2;
          C = captureChanges wt base (snd R)
      in (Inr \<lparr>result_text = join_sep ''\<newline>\<newline>''
                  (responsePart (fst R) # (if tm = Default then [changesPart (fst C)] else [])
                     @ warningsParts exitCode stderr @ sizeParts prompt),
               is_error = False\<rparr>,
          if tm = Default then snd C else snd R,
          [CreateWorktree g wt, GetHeadSha wt, RunCopilotCli wt (wrapPrompt prompt tm) model,
           ReadAndRemoveResponse wt RESPONSE_FILENAME]
          @ (if tm = Default then [CaptureChanges wt base] else [])))"
  using assms by (simp add: handler_try_def Let_def split: prod.splits)

lemma handler_try_rejects:
  assumes "createWorktree g wt w = (Inr (), w1)"
      and "getHeadSha w1 wt = Inr base"
      and "runCopilotCli agent wt (wrapPrompt prompt tm) model w1 = (Inl e, w2)"
  shows "handler_try agent prompt model tm g wt w =
     (Inl e, w2, [CreateWorktree g wt, GetHeadSha wt, RunCopilotCli wt (wrapPrompt prompt tm) model])"
  using assms by (simp add: handler_try_def Let_def)

lemma handler_try_result:
  assumes "fst (handler_try agent prompt model tm g wt w) = Inr res"
  shows "\<exists>w1 base exitCode stderr w2.
           createWorktree g wt w = (Inr (), w1) \<and> getHeadSha w1 wt = Inr base
           \<and> runCopilotCli agent wt (wrapPrompt prompt tm) model w1 = (Inr (exitCode, stderr), w2)"
proof (cases "createWorktree g wt w")
  case (Pair c w1)
  show ?thesis
  proof (cases c)
    case (Inl e)
    then show ?thesis using Pair assms by (simp add: handler_try_def)
  next
    case (Inr u)
    then have cw: "createWorktree g wt w = (Inr (), w1)" using Pair by simp
    show ?thesis
    proof (cases "getHeadSha w1 wt")
      case (Inl e)
      then show ?thesis using cw assms by (simp add: handler_try_def)
    next
      case hd: (Inr base)
      show ?thesis
      proof (cases "runCopilotCli agent wt (wrapPrompt prompt tm) model w1")
        case A: (Pair st w2)
        show ?thesis
        proof (cases st)
          case (Inl e)
          then show ?thesis using handler_try_rejects [OF cw hd, of agent prompt tm model e w2] A assms
            by simp
        next
          case (Inr v)
          then show ?thesis using cw hd A by (cases v) auto
        qed
      qed
    qed
  qed
qed

lemma handler_outcome_cases:
  assumes "outcome (handler agent ts rnd prompt model wd mode w) = Inr res"
  shows "(is_error res \<and> result_text res = ''Error: '' @ resolve (cwd w) wd @ '' is not inside a git repository.'')
       \<or> (\<exists>g. isGitRepo w (resolve (cwd w) wd) \<and> getGitRoot w (resolve (cwd w) wd) = Inr g \<and>
              fst (handler_try agent prompt model (case mode of None \<Rightarrow> Default | Some m \<Rightarrow> m)
                   g (generateWorktreePath g ts rnd) w) = Inr res)"
proof (cases "isGitRepo w (resolve (cwd w) wd)")
  case False
  then show ?thesis using assms by (auto simp: handler_not_repo)
next
  case True
  show ?thesis
  proof (cases "getGitRoot w (resolve (cwd w) wd)")
    case (Inl e)
    then show ?thesis using True assms by (simp add: handler_no_root)
  next
    case (Inr g)
    then show ?thesis using True assms
      by (simp add: handler_in_repo Let_def)
  qed
qed

lemma handler_run:
  assumes "isGitRepo w (resolve (cwd w) wd)"
      and "getGitRoot w (resolve (cwd w) wd) = Inr g"
      and "createWorktree g (generateWorktreePath g ts rnd) w = (Inr (), w1)"
      and "getHeadSha w1 (generateWorktreePath g ts rnd) = Inr base"
      and "runCopilotCli agent (generateWorktreePath g ts rnd)
             (wrapPrompt prompt (case mode of None \<Rightarrow> Default | Some m \<Rightarrow> m)) model w1
           = (Inr (exitCode, stderr), w2)"
  shows "\<exists>res. outcome (handler agent ts rnd prompt model wd mode w) = Inr res \<and> \<not> is_error res"
  using handler_in_repo [OF assms(1,2), of agent ts rnd prompt model mode]
        handler_try_run [OF assms(3,4,5)]
  by (simp add: Let_def)

lemma example_path_no_nul: "CHR 0x00 \<notin> set example_path"
  by (simp add: example_path_def)

lemma example_closes:
  assumes "CHR 0x00 \<notin> set prompt" "CHR 0x00 \<notin> set model"
      and "agent example_path (copilot_args (wrapPrompt prompt tm) model) w
             = (Closed (Some code) stderr, after)"
  shows "runCopilotCli agent example_path (wrapPrompt prompt tm) model w = (Inr (code, stderr), after)"
  using example_path_no_nul wrapPrompt_no_nul [OF assms(1)] assms(2,3)
  by (rule runCopilotCli_closes)

lemma example_run:
  assumes "\<not> f GitRevParseGitDir" "\<not> f GitRevParseShowToplevel" "\<not> f Mkdir"
          "\<not> f GitWorktreeAdd" "\<not> f GitRevParseHead"
      and "CHR 0x00 \<notin> set prompt" "CHR 0x00 \<notin> set model"
      and "agent example_path
             (copilot_args (wrapPrompt prompt (case mode of None \<Rightarrow> Default | Some m \<Rightarrow> m)) model)
             (worktree_world f) = (Closed (Some code) stderr, after)"
  shows "\<exists>res. outcome (handler agent 5 ''0.abcdefgh'' prompt model ''/repo'' mode (repo_world f)) = Inr res
            \<and> \<not> is_error res"
proof (rule handler_run)
  show "isGitRepo (repo_world f) (resolve (cwd (repo_world f)) ''/repo'')"
    using assms(1) by (rule example_isGitRepo)
  show "getGitRoot (repo_world f) (resolve (cwd (repo_world f)) ''/repo'') = Inr ''/repo''"
    using assms(2) by (rule example_getGitRoot)
  show "createWorktree ''/repo'' (generateWorktreePath ''/repo'' 5 ''0.abcdefgh'') (repo_world f)
          = (Inr (), worktree_world f)"
    unfolding example_path_generated using assms(3,4) by (rule created_world)
  show "getHeadSha (worktree_world f) (generateWorktreePath ''/repo'' 5 ''0.abcdefgh'') = Inr ''c0''"
    unfolding example_path_generated using assms(5) by (rule example_getHeadSha)
  show "runCopilotCli agent (generateWorktreePath ''/repo'' 5 ''0.abcdefgh'')
          (wrapPrompt prompt (case mode of None \<Rightarrow> Default | Some m \<Rightarrow> m)) model (worktree_world f)
        = (Inr (code, stderr), after)"
    unfolding example_path_generated
    using assms(6,7,8) by (rule example_closes)
qed

lemma handler_try_no_remove:
  "filter isRemoveWorktree (snd (snd (handler_try agent prompt model tm g wt w))) = []"
  by (simp add: handler_try_def Let_def split: prod.splits sum.splits)










lemma handler_try_text_parts:
  assumes "fst (handler_try agent prompt model tm g wt w) = Inr res"
  shows "\<exists>parts. parts \<noteq> [] \<and> result_text res = join_sep ''\<newline>\<newline>'' (parts @ sizeParts prompt)"
proof -
  from handler_try_result [OF assms] obtain w1 base exitCode stderr w2 where
    cw: "createWorktree g wt w = (Inr (), w1)" and hd: "getHeadSha w1 wt = Inr base"
    and A: "runCopilotCli agent wt (wrapPrompt prompt tm) model w1 = (Inr (exitCode, stderr), w2)"
    by blast
  let ?R = "readAndRemoveResponse wt RESPONSE_FILENAME w2"
  let ?C = "captureChanges wt base (snd ?R)"
  let ?parts = "responsePart (fst ?R) # (if tm = Default then [changesPart (fst ?C)] else [])
                    @ warningsParts exitCode stderr"
  have "result_text res = join_sep ''\<newline>\<newline>'' (?parts @ sizeParts prompt)"
    using handler_try_run [OF cw hd A] assms
    by (auto simp: Let_def)
  moreover have "?parts \<noteq> []" by simp
  ultimately show ?thesis by blast
qed


section \<open>index.ts: the claims about the handler\<close>

text \<open>
  Claim C5. When the resolved working directory lies in no git repository, the handler
  returns a result flagged as an error whose text names the resolved path and says that
  it is not inside a git repository. The run calls \<open>isGitRepo\<close> and nothing else,
  neither \<open>generateWorktreePath\<close> nor \<open>createWorktree\<close>, and leaves the world as it
  was: no work tree is created.
\<close>

theorem not_a_repository_is_an_error_result:
  assumes "toplevel w (resolve (cwd w) working_directory) = None"
  shows "handler agent timestamp random36 prompt model working_directory mode w =
     \<lparr>outcome = Inr \<lparr>result_text = ''Error: '' @ resolve (cwd w) working_directory
                                      @ '' is not inside a git repository.'',
                     is_error = True\<rparr>,
      final = w,
      calls = [IsGitRepo (resolve (cwd w) working_directory)],
      console = []\<rparr>"
  using assms by (simp add: handler_def isGitRepo_def git_rev_parse_git_dir_def Let_def)

theorem not_a_repository_is_an_error_result_witness:
  "toplevel (repo_world no_faults) (resolve (cwd (repo_world no_faults)) ''/tmp'') = None \<and>
   handler idle_agent 5 ''0.abcdefgh'' ''List files'' ''gpt-5-mini'' ''/tmp'' None (repo_world no_faults) =
     \<lparr>outcome = Inr \<lparr>result_text = ''Error: /tmp is not inside a git repository.'', is_error = True\<rparr>,
      final = repo_world no_faults, calls = [IsGitRepo ''/tmp''], console = []\<rparr>"
proof -
  have r: "resolve (cwd (repo_world no_faults)) ''/tmp'' = ''/tmp''"
    by (simp add: repo_world_def resolve_tmp)
  have h: "toplevel (repo_world no_faults) (resolve (cwd (repo_world no_faults)) ''/tmp'') = None"
    unfolding r by (simp add: repo_world_def)
  show ?thesis
    using not_a_repository_is_an_error_result
            [OF h, of idle_agent 5 "''0.abcdefgh''" "''List files''" "''gpt-5-mini''" None] h
    by (simp add: r)
qed

text \<open>
  Claim C2. In every run in which the work tree was created, whatever the agent does
  and whether the later steps return or raise, \<open>removeWorktree\<close> is called exactly
  once, as the last call of the run. The run ends as its \<open>try\<close> block ended, with the
  same result or the same error, whether \<open>removeWorktree\<close> returned or raised; when it
  raised, the error is written to the console and not raised again. (The proof does not
  use that the creation succeeded: the same holds when it failed.)
\<close>

theorem cleanup_runs_once_and_keeps_the_outcome:
  assumes "isGitRepo w (resolve (cwd w) working_directory)"
      and "getGitRoot w (resolve (cwd w) working_directory) = Inr gitRoot"
      and "worktreePath = generateWorktreePath gitRoot timestamp random36"
      and "fst (createWorktree gitRoot worktreePath w) = Inr ()"
      and "body = handler_try agent prompt model (case mode of None \<Rightarrow> Default | Some m \<Rightarrow> m)
                   gitRoot worktreePath w"
      and "r = handler agent timestamp random36 prompt model working_directory mode w"
  shows "length (filter isRemoveWorktree (calls r)) = 1
       \<and> last (calls r) = RemoveWorktree gitRoot worktreePath
       \<and> outcome r = fst body
       \<and> (\<forall>err. fst (removeWorktree gitRoot worktreePath (fst (snd body))) = Inl err \<longrightarrow>
             console r = [(cleanup_failed worktreePath, err)])"
  using assms(1,2)
  by (simp add: assms(3,5,6) handler_in_repo Let_def handler_try_no_remove)

theorem cleanup_runs_once_and_keeps_the_outcome_witness:
  "isGitRepo (repo_world remove_and_rm_fail)
     (resolve (cwd (repo_world remove_and_rm_fail)) ''/repo'')
   \<and> getGitRoot (repo_world remove_and_rm_fail)
        (resolve (cwd (repo_world remove_and_rm_fail)) ''/repo'') = Inr ''/repo''
   \<and> fst (createWorktree ''/repo'' (generateWorktreePath ''/repo'' 5 ''0.abcdefgh'')
             (repo_world remove_and_rm_fail)) = Inr ()
   \<and> length (filter isRemoveWorktree
        (calls (handler failing_agent 5 ''0.abcdefgh'' ''Fix it'' ''gpt-5-mini'' ''/repo'' None
                  (repo_world remove_and_rm_fail)))) = 1
   \<and> last (calls (handler failing_agent 5 ''0.abcdefgh'' ''Fix it'' ''gpt-5-mini'' ''/repo'' None
                  (repo_world remove_and_rm_fail)))
       = RemoveWorktree ''/repo'' example_path
   \<and> (\<exists>res. outcome (handler failing_agent 5 ''0.abcdefgh'' ''Fix it'' ''gpt-5-mini'' ''/repo'' None
                  (repo_world remove_and_rm_fail)) = Inr res)
   \<and> console (handler failing_agent 5 ''0.abcdefgh'' ''Fix it'' ''gpt-5-mini'' ''/repo'' None
                  (repo_world remove_and_rm_fail))
       = [(cleanup_failed example_path, Failed Rm)]"
proof -
  let ?f = remove_and_rm_fail
  let ?W = "repo_world ?f"
  let ?r = "handler failing_agent 5 ''0.abcdefgh'' ''Fix it'' ''gpt-5-mini'' ''/repo'' None ?W"
  let ?body = "handler_try failing_agent ''Fix it'' ''gpt-5-mini'' Default ''/repo'' example_path ?W"
  have h1: "isGitRepo ?W (resolve (cwd ?W) ''/repo'')" by (rule example_isGitRepo) (simp add: remove_and_rm_fail_def)
  have h2: "getGitRoot ?W (resolve (cwd ?W) ''/repo'') = Inr ''/repo''"
    by (rule example_getGitRoot) (simp add: remove_and_rm_fail_def)
  have h3: "example_path = generateWorktreePath ''/repo'' 5 ''0.abcdefgh''"
    by (simp add: example_path_generated)
  have cw: "createWorktree ''/repo'' example_path ?W = (Inr (), worktree_world ?f)"
    by (rule created_world) (simp_all add: remove_and_rm_fail_def)
  have h4: "fst (createWorktree ''/repo'' example_path ?W) = Inr ()" by (simp add: cw)
  have hd: "getHeadSha (worktree_world ?f) example_path = Inr ''c0''"
    by (rule example_getHeadSha) (simp add: remove_and_rm_fail_def)
  have ag: "failing_agent example_path (copilot_args (wrapPrompt ''Fix it'' Default) ''gpt-5-mini'')
              (worktree_world ?f) = (Closed (Some 1) ''boom'', worktree_world ?f)"
    by (simp add: failing_agent_def)
  have A: "runCopilotCli failing_agent example_path (wrapPrompt ''Fix it'' Default) ''gpt-5-mini''
             (worktree_world ?f) = (Inr (1, ''boom''), worktree_world ?f)"
    by (rule example_closes) (simp_all add: ag)
  note T = cleanup_runs_once_and_keeps_the_outcome [OF h1 h2 h3 h4 refl refl,
             of failing_agent "''Fix it''" "''gpt-5-mini''" None]
  have w: "fst (snd ?body) =
           snd (captureChanges example_path ''c0''
                 (snd (readAndRemoveResponse example_path RESPONSE_FILENAME (worktree_world ?f))))"
    using handler_try_run [OF cw hd A] by (simp add: Let_def)
  have fr: "faults (fst (snd ?body)) = faults (worktree_world ?f)"
           "dirs (fst (snd ?body)) = dirs (worktree_world ?f)"
    using captureChanges_frame
            [of example_path "''c0''" "snd (readAndRemoveResponse example_path RESPONSE_FILENAME (worktree_world ?f))"]
          readAndRemoveResponse_frame [of example_path RESPONSE_FILENAME "worktree_world ?f"]
    by (simp_all add: w)
  have fl: "faults (fst (snd ?body)) = ?f" and dr: "example_path \<in> dirs (fst (snd ?body))"
    unfolding fr by (simp_all add: worktree_world_def)
  have rz: "fst (removeWorktree ''/repo'' example_path (fst (snd ?body))) = Inl (Failed Rm)"
    by (rule removeWorktree_raises) (simp_all add: fl dr existsSync_def remove_and_rm_fail_def)
  have o: "\<exists>res. outcome ?r = Inr res \<and> \<not> is_error res"
  proof (rule example_run)
    show "failing_agent example_path
            (copilot_args (wrapPrompt ''Fix it'' (case None of None \<Rightarrow> Default | Some m \<Rightarrow> m)) ''gpt-5-mini'')
            (worktree_world ?f) = (Closed (Some 1) ''boom'', worktree_world ?f)"
      by (simp add: failing_agent_def)
  qed (simp_all add: remove_and_rm_fail_def)
  show ?thesis
    using T h1 h2 h4 rz o by (auto simp add: h3 [symmetric])
qed





















text \<open>
  Claim C9. \<open>promptSizeWarning\<close> returns null exactly when the prompt is shorter
  than 10240 characters. For a prompt of at least 10240 characters it returns a warning
  that names the size as \<open>~nKB\<close>, where \<open>n\<close> is the length divided by 1024 and
  rounded to the nearest integer, and every result of the handler other than the
  not-a-repository error ends with that warning as its Context Size Notice section.
\<close>

theorem promptSizeWarning_threshold_and_notice:
  "(promptSizeWarning prompt = None \<longleftrightarrow> length prompt < 10240)
   \<and> (10240 \<le> length prompt \<longrightarrow>
        (\<exists>warning. promptSizeWarning prompt = Some warning
           \<and> str_includes warning (''~'' @ show_nat (math_round_div (length prompt) 1024) @ ''KB'')
           \<and> int (math_round_div (length prompt) 1024) = \<lfloor>real (length prompt) / 1024 + 1 / 2\<rfloor>
           \<and> (\<forall>res. outcome (handler agent timestamp random36 prompt model working_directory mode w) = Inr res
                      \<and> \<not> is_error res \<longrightarrow>
                  suffix (''\<newline>\<newline>## Context Size Notice\<newline>\<newline>'' @ warning) (result_text res))))"
proof (intro conjI impI)
  show "promptSizeWarning prompt = None \<longleftrightarrow> length prompt < 10240"
    by (rule promptSizeWarning_None)
next
  assume big: "10240 \<le> length prompt"
  from promptSizeWarning_Some [OF big] obtain warning where
    w: "promptSizeWarning prompt = Some warning" and ne: "warning \<noteq> []"
    and k: "str_includes warning (''~'' @ show_nat (math_round_div (length prompt) 1024) @ ''KB'')"
    by blast
  have s: "sizeParts prompt = [''## Context Size Notice\<newline>\<newline>'' @ warning]"
    using w ne by (rule sizeParts_Some)
  have "\<forall>res. outcome (handler agent timestamp random36 prompt model working_directory mode w) = Inr res
                      \<and> \<not> is_error res \<longrightarrow>
                  suffix (''\<newline>\<newline>## Context Size Notice\<newline>\<newline>'' @ warning) (result_text res)"
  proof (intro allI impI)
    fix res
    assume a: "outcome (handler agent timestamp random36 prompt model working_directory mode w) = Inr res
               \<and> \<not> is_error res"
    from handler_outcome_cases [of agent timestamp random36 prompt model working_directory mode w res] a
    obtain g where "fst (handler_try agent prompt model (case mode of None \<Rightarrow> Default | Some m \<Rightarrow> m)
                     g (generateWorktreePath g timestamp random36) w) = Inr res"
      by blast
    from handler_try_text_parts [OF this] obtain parts where
      p: "parts \<noteq> []" and t: "result_text res = join_sep ''\<newline>\<newline>'' (parts @ sizeParts prompt)"
      by blast
    have "result_text res = join_sep ''\<newline>\<newline>'' parts @ ''\<newline>\<newline>''
                              @ ''## Context Size Notice\<newline>\<newline>'' @ warning"
      unfolding t s using p by (rule join_sep_snoc)
    then show "suffix (''\<newline>\<newline>## Context Size Notice\<newline>\<newline>'' @ warning) (result_text res)"
      by (simp add: suffix_def)
  qed
  with w k math_round_div_nearest [of "length prompt"]
  show "\<exists>warning. promptSizeWarning prompt = Some warning
           \<and> str_includes warning (''~'' @ show_nat (math_round_div (length prompt) 1024) @ ''KB'')
           \<and> int (math_round_div (length prompt) 1024) = \<lfloor>real (length prompt) / 1024 + 1 / 2\<rfloor>
           \<and> (\<forall>res. outcome (handler agent timestamp random36 prompt model working_directory mode w) = Inr res
                      \<and> \<not> is_error res \<longrightarrow>
                  suffix (''\<newline>\<newline>## Context Size Notice\<newline>\<newline>'' @ warning) (result_text res))"
    by blast
qed

theorem promptSizeWarning_threshold_and_notice_witness:
  "promptSizeWarning ''Fix the bug'' = None
   \<and> 10240 \<le> length (replicate 15000 (CHR ''x''))
   \<and> (\<exists>warning. promptSizeWarning (replicate 15000 (CHR ''x'')) = Some warning
         \<and> str_includes warning ''~15KB''
         \<and> (\<exists>res. outcome (handler idle_agent 5 ''0.abcdefgh'' (replicate 15000 (CHR ''x'')) ''gpt-5-mini''
                              ''/repo'' None (repo_world no_faults)) = Inr res
                 \<and> \<not> is_error res
                 \<and> suffix (''\<newline>\<newline>## Context Size Notice\<newline>\<newline>'' @ warning) (result_text res)))"
proof -
  let ?p = "replicate 15000 (CHR ''x'')"
  have small: "promptSizeWarning ''Fix the bug'' = None"
    using promptSizeWarning_threshold_and_notice [of "''Fix the bug''"] by simp
  have big: "10240 \<le> length ?p" by simp
  have k: "''~'' @ show_nat (math_round_div (length ?p) 1024) @ ''KB'' = ''~15KB''"
    by (simp add: math_round_div_def show_nat_15)
  have "\<exists>res. outcome (handler idle_agent 5 ''0.abcdefgh'' ?p ''gpt-5-mini''
                              ''/repo'' None (repo_world no_faults)) = Inr res \<and> \<not> is_error res"
  proof (rule example_run)
    show "idle_agent example_path
            (copilot_args (wrapPrompt ?p (case None of None \<Rightarrow> Default | Some m \<Rightarrow> m)) ''gpt-5-mini'')
            (worktree_world no_faults) = (Closed (Some 0) [], worktree_world no_faults)"
      by (simp add: idle_agent_def)
  qed (simp_all add: no_faults_def)
  then obtain res where o: "outcome (handler idle_agent 5 ''0.abcdefgh'' ?p ''gpt-5-mini''
                              ''/repo'' None (repo_world no_faults)) = Inr res"
    and e: "\<not> is_error res"
    by blast
  from promptSizeWarning_threshold_and_notice
         [of ?p idle_agent 5 "''0.abcdefgh''" "''gpt-5-mini''" "''/repo''" None "repo_world no_faults"] big
  obtain warning where w: "promptSizeWarning ?p = Some warning"
    and i: "str_includes warning (''~'' @ show_nat (math_round_div (length ?p) 1024) @ ''KB'')"
    and s: "\<forall>res. outcome (handler idle_agent 5 ''0.abcdefgh'' ?p ''gpt-5-mini''
                              ''/repo'' None (repo_world no_faults)) = Inr res \<and> \<not> is_error res \<longrightarrow>
                  suffix (''\<newline>\<newline>## Context Size Notice\<newline>\<newline>'' @ warning) (result_text res)"
    by blast
  from i have i': "str_includes warning ''~15KB''" unfolding k .
  from s o e have "suffix (''\<newline>\<newline>## Context Size Notice\<newline>\<newline>'' @ warning) (result_text res)"
    by blast
  with small big w i' o e show ?thesis by blast
qed


end
